theory Spec2Isabelle
  imports Main
begin

section \<open>Values, errors and collaborators\<close>

text \<open>
  The module \<open>sentry.db.models.fields.node\<close> is dynamically typed Python. Its values are
  embedded in one universe: \<open>None\<close>, integers, strings, plain dicts with string keys and
  instances of the canonical-key mapping type (\<open>CANONICAL_TYPES\<close>). A dict is a map, so
  that two dicts are equal exactly when they hold the same items, whatever the order in
  which the keys were inserted. Equality of references and epochs is the equality of
  this universe, which is Python's \<open>==\<close> on \<open>None\<close>, integers and strings.
\<close>

datatype error = NodeUnpopulated | NodeIntegrityFailure | KeyError | TypeError | AttributeError

datatype pyval =
    PNone
  | PInt int
  | PStr string
  | PDict "string \<Rightarrow> pyval option"
  | PCanon "string \<Rightarrow> pyval option"

type_synonym dict = "string \<Rightarrow> pyval option"

text \<open>
  What the module imports and does not define is a parameter:
  \<^item> \<open>DEBUG\<close> is \<open>settings.DEBUG\<close>;
  \<^item> \<open>generate_id n\<close> is the identifier the node store hands out at its \<open>n\<close>-th creation;
  \<^item> \<open>dumps v\<close> is \<open>compress(pickle.dumps(v))\<close>, and \<open>loads s\<close> is
    \<open>pickle.loads(decompress(s))\<close>, \<open>None\<close> when either step raises;
  \<^item> \<open>norm_key\<close> is the key under which a canonical-key mapping files a caller's key, and
    \<open>CanonicalKeyDict\<close> is its constructor (\<open>sentry.utils.canonical\<close>).
\<close>

record env =
  DEBUG :: bool
  generate_id :: "nat \<Rightarrow> string"
  dumps :: "pyval \<Rightarrow> string"
  loads :: "string \<Rightarrow> pyval option"
  norm_key :: "string \<Rightarrow> string"
  CanonicalKeyDict :: "pyval \<Rightarrow> error + pyval"

text \<open>Python's truth value: \<open>None\<close>, \<open>0\<close>, the empty string and an empty mapping are false.\<close>

fun truthy :: "pyval \<Rightarrow> bool" where
  "truthy PNone = False"
| "truthy (PInt i) = (i \<noteq> 0)"
| "truthy (PStr s) = (s \<noteq> [])"
| "truthy (PDict m) = (m \<noteq> Map.empty)"
| "truthy (PCanon m) = (m \<noteq> Map.empty)"

text \<open>\<open>isinstance(v, CANONICAL_TYPES)\<close>.\<close>

fun is_canonical :: "pyval \<Rightarrow> bool" where
  "is_canonical (PCanon m) = True"
| "is_canonical v = False"

text \<open>\<open>v.items()\<close>: only mappings have the method.\<close>

fun py_items :: "pyval \<Rightarrow> error + dict" where
  "py_items (PDict m) = Inr m"
| "py_items (PCanon m) = Inr m"
| "py_items v = Inl AttributeError"

text \<open>\<open>len(v) == 0\<close>: \<open>None\<close> and integers have no length.\<close>

fun py_empty :: "pyval \<Rightarrow> error + bool" where
  "py_empty (PDict m) = Inr (m = Map.empty)"
| "py_empty (PCanon m) = Inr (m = Map.empty)"
| "py_empty (PStr s) = Inr (s = [])"
| "py_empty v = Inl TypeError"

text \<open>The substring test that \<open>in\<close> performs on a string.\<close>

fun str_contains :: "string \<Rightarrow> string \<Rightarrow> bool" where
  "str_contains sub [] = (sub = [])"
| "str_contains sub (c # cs) = (take (length sub) (c # cs) = sub \<or> str_contains sub cs)"

text \<open>\<open>k in v\<close>.\<close>

fun py_contains :: "env \<Rightarrow> string \<Rightarrow> pyval \<Rightarrow> error + bool" where
  "py_contains env k (PDict m) = Inr (m k \<noteq> None)"
| "py_contains env k (PCanon m) = Inr (m (norm_key env k) \<noteq> None)"
| "py_contains env k (PStr s) = Inr (str_contains k s)"
| "py_contains env k v = Inl TypeError"

text \<open>
  \<open>v.pop(k)\<close> and \<open>v.pop(k, d)\<close>: the value removed and the mapping afterwards (the pop
  changes the caller's object). Without a default a missing key is a \<open>KeyError\<close>.
\<close>

fun py_pop :: "env \<Rightarrow> string \<Rightarrow> pyval option \<Rightarrow> pyval \<Rightarrow> error + (pyval \<times> pyval)" where
  "py_pop env k dflt (PDict m) =
     (case m k of
        Some v \<Rightarrow> Inr (v, PDict (m(k := None)))
      | None \<Rightarrow> (case dflt of Some d \<Rightarrow> Inr (d, PDict m) | None \<Rightarrow> Inl KeyError))"
| "py_pop env k dflt (PCanon m) =
     (case m (norm_key env k) of
        Some v \<Rightarrow> Inr (v, PCanon (m(norm_key env k := None)))
      | None \<Rightarrow> (case dflt of Some d \<Rightarrow> Inr (d, PCanon m) | None \<Rightarrow> Inl KeyError))"
| "py_pop env k dflt v = Inl AttributeError"

text \<open>\<open>v[k]\<close> and \<open>v[k] = x\<close>.\<close>

fun py_getitem :: "env \<Rightarrow> string \<Rightarrow> pyval \<Rightarrow> error + pyval" where
  "py_getitem env k (PDict m) = (case m k of Some v \<Rightarrow> Inr v | None \<Rightarrow> Inl KeyError)"
| "py_getitem env k (PCanon m) =
     (case m (norm_key env k) of Some v \<Rightarrow> Inr v | None \<Rightarrow> Inl KeyError)"
| "py_getitem env k v = Inl TypeError"

fun py_setitem :: "env \<Rightarrow> string \<Rightarrow> pyval \<Rightarrow> pyval \<Rightarrow> error + pyval" where
  "py_setitem env k x (PDict m) = Inr (PDict (m(k \<mapsto> x)))"
| "py_setitem env k x (PCanon m) = Inr (PCanon (m(norm_key env k \<mapsto> x)))"
| "py_setitem env k x v = Inl TypeError"

section \<open>The node store\<close>

text \<open>
  Modelled from the spec: the module \<open>sentry.nodestore\<close> is not part of the source. The
  spec gives its interface: \<open>create(doc)\<close> allocates a document and returns its pointer,
  \<open>get(id)\<close> returns the stored document or an absent indicator, \<open>set(id, doc)\<close>
  overwrites, \<open>delete(id)\<close> removes. The store keeps what it is given by value, and
  every call is recorded in \<open>calls\<close>, so that the calls a function makes can be counted.
\<close>

datatype store_call = Create pyval | Get pyval | Set pyval pyval | Delete pyval

record nodestore =
  contents :: "pyval \<Rightarrow> pyval option"
  counter :: nat
  calls :: "store_call list"

definition ns_create :: "env \<Rightarrow> pyval \<Rightarrow> nodestore \<Rightarrow> pyval \<times> nodestore" where
  "ns_create env d ns =
     (let i = PStr (generate_id env (counter ns))
      in (i, ns\<lparr>contents := (contents ns)(i \<mapsto> d),
                counter := Suc (counter ns),
                calls := calls ns @ [Create d]\<rparr>))"

definition ns_get :: "pyval \<Rightarrow> nodestore \<Rightarrow> pyval \<times> nodestore" where
  "ns_get i ns =
     ((case contents ns i of None \<Rightarrow> PNone | Some d \<Rightarrow> d), ns\<lparr>calls := calls ns @ [Get i]\<rparr>)"

definition ns_set :: "pyval \<Rightarrow> pyval \<Rightarrow> nodestore \<Rightarrow> nodestore" where
  "ns_set i d ns = ns\<lparr>contents := (contents ns)(i \<mapsto> d), calls := calls ns @ [Set i d]\<rparr>"

definition ns_delete :: "pyval \<Rightarrow> nodestore \<Rightarrow> nodestore" where
  "ns_delete i ns = ns\<lparr>contents := (contents ns)(i := None), calls := calls ns @ [Delete i]\<rparr>"

section \<open>NodeField and NodeData\<close>

text \<open>
  The options of \<open>NodeField.__init__\<close> that the methods below read: \<open>ref_version\<close>,
  \<open>wrapper\<close> (\<open>None\<close> or a callable, taken to return normally) and the \<open>null\<close> option of
  the underlying column.
\<close>

record node_field =
  f_ref_version :: pyval
  f_wrapper :: "(pyval \<Rightarrow> pyval) option"
  f_null :: bool

text \<open>The attributes of a \<open>NodeData\<close> object; \<open>nd_node_data\<close> is \<open>_node_data\<close>.\<close>

record node_data =
  nd_field :: node_field
  nd_id :: pyval
  nd_ref :: pyval
  nd_ref_version :: pyval
  nd_node_data :: pyval

text \<open>\<open>NodeData.__init__(field, id, data)\<close>.\<close>

definition NodeData :: "node_field \<Rightarrow> pyval \<Rightarrow> pyval \<Rightarrow> node_data" where
  "NodeData fld i d =
     \<lparr>nd_field = fld, nd_id = i, nd_ref = PNone, nd_ref_version = PNone, nd_node_data = d\<rparr>"

text \<open>\<open>wrapper(d)\<close> when a wrapper is configured, \<open>d\<close> otherwise.\<close>

definition wrap :: "node_field \<Rightarrow> pyval \<Rightarrow> pyval" where
  "wrap fld d = (case f_wrapper fld of None \<Rightarrow> d | Some w \<Rightarrow> w d)"

text \<open>
  \<open>NodeData.bind_data(data, ref)\<close>. An exception leaves the assignments made before it
  in place, so the result is the outcome, the object afterwards and the caller's mapping
  afterwards (the two pops change it).
\<close>

definition bind_data ::
  "env \<Rightarrow> node_data \<Rightarrow> pyval \<Rightarrow> pyval \<Rightarrow> (error + unit) \<times> node_data \<times> pyval" where
  "bind_data env self body ref =
     (case py_pop env ''_ref'' (Some ref) body of
        Inl e \<Rightarrow> (Inl e, self, body)
      | Inr (r, body1) \<Rightarrow>
          (let self1 = self\<lparr>nd_ref := r\<rparr> in
           case py_pop env ''_ref_version'' (Some PNone) body1 of
             Inl e \<Rightarrow> (Inl e, self1, body1)
           | Inr (rv, body2) \<Rightarrow>
               (let self2 = self1\<lparr>nd_ref_version := rv\<rparr> in
                if nd_ref_version self2 = f_ref_version (nd_field self2)
                   \<and> ref \<noteq> PNone \<and> nd_ref self2 \<noteq> ref
                then (Inl NodeIntegrityFailure, self2, body2)
                else (Inr (), self2\<lparr>nd_node_data := wrap (nd_field self2) body2\<rparr>, body2))))"

text \<open>
  The property \<open>NodeData.data\<close>: the outcome, the object afterwards and the store
  afterwards. \<open>nodestore.get(self.id) or {}\<close> replaces a false result by a new empty dict.
  The warning that the lenient branch issues has no effect on the result.
\<close>

definition data ::
  "env \<Rightarrow> node_data \<Rightarrow> nodestore \<Rightarrow> (error + pyval) \<times> node_data \<times> nodestore" where
  "data env self ns =
     (if nd_node_data self \<noteq> PNone then (Inr (nd_node_data self), self, ns)
      else if truthy (nd_id self) then
        (if DEBUG env then (Inl NodeUnpopulated, self, ns)
         else (case ns_get (nd_id self) ns of
                 (got, ns1) \<Rightarrow>
                   (case bind_data env self (if truthy got then got else PDict Map.empty) PNone of
                      (Inl e, self1, body1) \<Rightarrow> (Inl e, self1, ns1)
                    | (Inr u, self1, body1) \<Rightarrow> (Inr (nd_node_data self1), self1, ns1))))
      else (Inr (wrap (nd_field self) (PDict Map.empty)), self, ns))"

text \<open>
  \<open>__getitem__\<close> and \<open>__setitem__\<close> work on the object that \<open>data\<close> returns. That object
  is \<open>_node_data\<close> itself when the attribute is set after the call, and a new object
  held by nobody otherwise, so only in the first case does the assignment reach the
  proxy.
\<close>

definition getitem ::
  "env \<Rightarrow> node_data \<Rightarrow> string \<Rightarrow> nodestore \<Rightarrow> (error + pyval) \<times> node_data \<times> nodestore" where
  "getitem env self k ns =
     (case data env self ns of
        (Inl e, self1, ns1) \<Rightarrow> (Inl e, self1, ns1)
      | (Inr d, self1, ns1) \<Rightarrow> (py_getitem env k d, self1, ns1))"

definition setitem ::
  "env \<Rightarrow> node_data \<Rightarrow> string \<Rightarrow> pyval \<Rightarrow> nodestore \<Rightarrow> (error + unit) \<times> node_data \<times> nodestore" where
  "setitem env self k x ns =
     (case data env self ns of
        (Inl e, self1, ns1) \<Rightarrow> (Inl e, self1, ns1)
      | (Inr d, self1, ns1) \<Rightarrow>
          (case py_setitem env k x d of
             Inl e \<Rightarrow> (Inl e, self1, ns1)
           | Inr d' \<Rightarrow>
               (Inr (), (if nd_node_data self1 \<noteq> PNone then self1\<lparr>nd_node_data := d'\<rparr> else self1),
                ns1)))"

text \<open>
  The truth value of a \<open>NodeData\<close> object. The class defines \<open>__len__\<close> as
  \<open>len(self.data)\<close> and no \<open>__nonzero__\<close>, so \<open>not value\<close> reads the property and
  tests the length of what it returns.
\<close>

definition nonzero ::
  "env \<Rightarrow> node_data \<Rightarrow> nodestore \<Rightarrow> (error + bool) \<times> node_data \<times> nodestore" where
  "nonzero env self ns =
     (case data env self ns of
        (Inl e, self1, ns1) \<Rightarrow> (Inl e, self1, ns1)
      | (Inr d, self1, ns1) \<Rightarrow>
          (case py_empty d of
             Inl e \<Rightarrow> (Inl e, self1, ns1)
           | Inr b \<Rightarrow> (Inr (\<not> b), self1, ns1)))"

text \<open>
  \<open>__getstate__\<close> and \<open>__setstate__\<close>. The state is the attribute dict with the flag
  \<open>_node_data_CANONICAL\<close>, which a legacy state does not have.
\<close>

record pickled =
  st_field :: node_field
  st_id :: pyval
  st_ref :: pyval
  st_ref_version :: pyval
  st_node_data :: pyval
  st_node_data_CANONICAL :: "bool option"

definition getstate :: "node_data \<Rightarrow> error + pickled" where
  "getstate self =
     (let flag = is_canonical (nd_node_data self) in
      case py_items (nd_node_data self) of
        Inl e \<Rightarrow> Inl e
      | Inr m \<Rightarrow>
          Inr \<lparr>st_field = nd_field self, st_id = nd_id self, st_ref = nd_ref self,
               st_ref_version = nd_ref_version self, st_node_data = PDict m,
               st_node_data_CANONICAL = Some flag\<rparr>)"

definition setstate :: "env \<Rightarrow> pickled \<Rightarrow> error + node_data" where
  "setstate env state =
     (let mk = (\<lambda>d. \<lparr>nd_field = st_field state, nd_id = st_id state, nd_ref = st_ref state,
                     nd_ref_version = st_ref_version state, nd_node_data = d\<rparr>) in
      if (case st_node_data_CANONICAL state of None \<Rightarrow> False | Some b \<Rightarrow> b)
      then (case CanonicalKeyDict env (st_node_data state) of
              Inl e \<Rightarrow> Inl e
            | Inr c \<Rightarrow> Inr (mk c))
      else Inr (mk (st_node_data state)))"

text \<open>\<open>NodeField.on_delete\<close>, given the value of the field on the deleted instance.\<close>

definition on_delete :: "node_data \<Rightarrow> nodestore \<Rightarrow> nodestore" where
  "on_delete v ns = (if \<not> truthy (nd_id v) then ns else ns_delete (nd_id v) ns)"

text \<open>
  \<open>NodeField.to_python\<close>. A non-empty string is decoded, and a decoding that raises
  gives \<open>{}\<close>; any other false value gives \<open>{}\<close>; every other value is used as it is.
\<close>

definition to_python :: "env \<Rightarrow> node_field \<Rightarrow> pyval \<Rightarrow> error + node_data" where
  "to_python env fld v =
     (let v1 = (case v of
                  PStr s \<Rightarrow>
                    (if s \<noteq> [] then (case loads env s of Some x \<Rightarrow> x | None \<Rightarrow> PDict Map.empty)
                     else PDict Map.empty)
                | _ \<Rightarrow> (if \<not> truthy v then PDict Map.empty else v))
      in case py_contains env ''node_id'' v1 of
           Inl e \<Rightarrow> Inl e
         | Inr True \<Rightarrow>
             (case py_pop env ''node_id'' None v1 of
                Inl e \<Rightarrow> Inl e
              | Inr (i, rest) \<Rightarrow> Inr (NodeData fld i PNone))
         | Inr False \<Rightarrow>
             Inr (NodeData fld PNone
                    (if f_wrapper fld \<noteq> None \<and> v1 \<noteq> PNone then wrap fld v1 else v1)))"

text \<open>
  \<open>NodeField.get_prep_value\<close>: the outcome (\<open>None\<close> is the null that is persisted, a
  string the persisted bytes), the object afterwards and the store afterwards.
  \<open>not value and self.null\<close> evaluates \<open>not value\<close> first, whatever \<open>self.null\<close> is.
\<close>

definition get_prep_value ::
  "env \<Rightarrow> node_field \<Rightarrow> node_data \<Rightarrow> nodestore \<Rightarrow> (error + string option) \<times> node_data \<times> nodestore" where
  "get_prep_value env fld v ns =
     (case nonzero env v ns of
        (Inl e, v1, ns1) \<Rightarrow> (Inl e, v1, ns1)
      | (Inr t, v1, ns1) \<Rightarrow>
          (if \<not> t \<and> f_null fld then (Inr None, v1, ns1)
           else (case data env v1 ns1 of
                   (Inl e, v2, ns2) \<Rightarrow> (Inl e, v2, ns2)
                 | (Inr d, v2, ns2) \<Rightarrow>
                     (let d1 = (case d of PCanon m \<Rightarrow> PDict m | _ \<Rightarrow> d) in
                      if \<not> truthy (nd_id v2) then
                        (case ns_create env d1 ns2 of
                           (i, ns3) \<Rightarrow>
                             (Inr (Some (dumps env (PDict [''node_id'' \<mapsto> i]))),
                              v2\<lparr>nd_id := i\<rparr>, ns3))
                      else
                        (Inr (Some (dumps env (PDict [''node_id'' \<mapsto> nd_id v2]))),
                         v2, ns_set (nd_id v2) d1 ns2)))))"

section \<open>The round trip through the codec\<close>

text \<open>
  The sequence of calls of a save followed by a load: bind the body \<open>D\<close> to the proxy
  with no expected reference, encode the proxy with \<open>get_prep_value\<close>, and decode what
  was persisted (the null or the bytes) with \<open>to_python\<close>. The result is the decoded
  proxy and the store the save left, or the first exception.
\<close>

definition save_and_load ::
  "env \<Rightarrow> node_field \<Rightarrow> node_data \<Rightarrow> dict \<Rightarrow> nodestore \<Rightarrow> error + (node_data \<times> nodestore)" where
  "save_and_load env fld p D ns =
     (case bind_data env p (PDict D) PNone of
        (Inl e, p1, b) \<Rightarrow> Inl e
      | (Inr u, p1, b) \<Rightarrow>
          (case get_prep_value env fld p1 ns of
             (Inl e, p2, ns1) \<Rightarrow> Inl e
           | (Inr persisted, p2, ns1) \<Rightarrow>
               (case to_python env fld (case persisted of None \<Rightarrow> PNone | Some s \<Rightarrow> PStr s) of
                  Inl e \<Rightarrow> Inl e
                | Inr q \<Rightarrow> Inr (q, ns1))))"

text \<open>The body that the decoded proxy materializes when its \<open>data\<close> is read.\<close>

definition roundtrip ::
  "env \<Rightarrow> node_field \<Rightarrow> node_data \<Rightarrow> dict \<Rightarrow> nodestore \<Rightarrow> error + pyval" where
  "roundtrip env fld p D ns =
     (case save_and_load env fld p D ns of
        Inl e \<Rightarrow> Inl e
      | Inr (q, ns1) \<Rightarrow> fst (data env q ns1))"

section \<open>Auxiliary notions and sample inputs\<close>

text \<open>The value a body stores under a reserved key, \<open>dflt\<close> when it stores none.\<close>

definition stored :: "dict \<Rightarrow> string \<Rightarrow> pyval \<Rightarrow> pyval" where
  "stored m k dflt = (case m k of None \<Rightarrow> dflt | Some v \<Rightarrow> v)"

text \<open>
  Sample collaborators, for evaluating the functions at concrete inputs: identifiers
  \<open>n\<close>, \<open>nx\<close>, \<open>nxx\<close>, ..., a codec that writes the pointer record of a string identifier
  \<open>s\<close> as \<open>N\<close> followed by \<open>s\<close> and reads \<open>I5\<close> as the integer 5, and a canonical-key
  type that keeps every key.
\<close>

definition sample_dumps :: "pyval \<Rightarrow> string" where
  "sample_dumps v =
     (case v of
        PDict m \<Rightarrow> (case m ''node_id'' of Some (PStr s) \<Rightarrow> CHR ''N'' # s | _ \<Rightarrow> ''?'')
      | _ \<Rightarrow> ''?'')"

definition sample_loads :: "string \<Rightarrow> pyval option" where
  "sample_loads s =
     (if s = ''I5'' then Some (PInt 5)
      else case s of
             c # r \<Rightarrow> (if c = CHR ''N'' then Some (PDict [''node_id'' \<mapsto> PStr r]) else None)
           | [] \<Rightarrow> None)"

definition sample_canonical :: "pyval \<Rightarrow> error + pyval" where
  "sample_canonical v = (case py_items v of Inl e \<Rightarrow> Inl e | Inr m \<Rightarrow> Inr (PCanon m))"

definition sample_env :: "bool \<Rightarrow> env" where
  "sample_env dbg =
     \<lparr>DEBUG = dbg, generate_id = (\<lambda>n. CHR ''n'' # replicate n CHR ''x''),
      dumps = sample_dumps, loads = sample_loads, norm_key = (\<lambda>k. k),
      CanonicalKeyDict = sample_canonical\<rparr>"

definition lenient :: env where
  "lenient = sample_env False"

definition strict :: env where
  "strict = sample_env True"

text \<open>
  A canonical-key constructor that files the key \<open>legacy\<close> under \<open>canonical\<close> (an entry
  already under \<open>canonical\<close> wins), and the lenient collaborators with that constructor.
\<close>

definition renaming_canonical :: "pyval \<Rightarrow> error + pyval" where
  "renaming_canonical v =
     (case py_items v of
        Inl e \<Rightarrow> Inl e
      | Inr m \<Rightarrow>
          Inr (PCanon (\<lambda>k. if k = ''canonical''
                             then (case m ''canonical'' of Some x \<Rightarrow> Some x | None \<Rightarrow> m ''legacy'')
                             else if k = ''legacy'' then None else m k)))"

definition renaming :: env where
  "renaming = (sample_env False)\<lparr>CanonicalKeyDict := renaming_canonical\<rparr>"

text \<open>A field with epoch 1, no wrapper, and the null option as given.\<close>

definition sample_field :: "bool \<Rightarrow> node_field" where
  "sample_field n = \<lparr>f_ref_version = PInt 1, f_wrapper = None, f_null = n\<rparr>"

text \<open>The body \<open>{'_ref': 'r1', '_ref_version': 1, 'a': 5}\<close> and the body \<open>{'a': 5}\<close>.\<close>

definition tagged_body :: dict where
  "tagged_body = [''_ref'' \<mapsto> PStr ''r1'', ''_ref_version'' \<mapsto> PInt 1, ''a'' \<mapsto> PInt 5]"

definition plain_body :: dict where
  "plain_body = [''a'' \<mapsto> PInt 5]"

text \<open>An empty store, and a store that holds \<open>tagged_body\<close> under the pointer \<open>p1\<close>.\<close>

definition empty_store :: nodestore where
  "empty_store = \<lparr>contents = Map.empty, counter = 0, calls = []\<rparr>"

definition tagged_store :: nodestore where
  "tagged_store = \<lparr>contents = [PStr ''p1'' \<mapsto> PDict tagged_body], counter = 0, calls = []\<rparr>"

section \<open>The reference-integrity check\<close>

lemma bind_data_PDict:
  "bind_data env self (PDict m) E =
     (let body2 = PDict (m(''_ref'' := None, ''_ref_version'' := None));
          self2 = self\<lparr>nd_ref := stored m ''_ref'' E,
                       nd_ref_version := stored m ''_ref_version'' PNone\<rparr>
      in if stored m ''_ref_version'' PNone = f_ref_version (nd_field self)
            \<and> E \<noteq> PNone \<and> stored m ''_ref'' E \<noteq> E
         then (Inl NodeIntegrityFailure, self2, body2)
         else (Inr (), self2\<lparr>nd_node_data := wrap (nd_field self) body2\<rparr>, body2))"
  by (cases "m ''_ref''"; cases "m ''_ref_version''")
     (simp_all add: bind_data_def stored_def Let_def fun_upd_idem)

text \<open>
  Claim C2. Binding a body with the expected reference \<open>E\<close> raises
  \<open>NodeIntegrityFailure\<close> exactly when the \<open>_ref_version\<close> the body stores (\<open>None\<close> when it
  stores none, as the pop's default has it) equals the field's \<open>ref_version\<close>, \<open>E\<close> is
  not \<open>None\<close>, and the \<open>_ref\<close> the body stores (\<open>E\<close> itself when it stores none) differs
  from \<open>E\<close>. The bind raises nothing else, and a body of another epoch is bound without
  an error whatever its \<open>_ref\<close>.
\<close>

theorem bind_data_raises_iff:
  "(fst (bind_data env self (PDict m) E) = Inl NodeIntegrityFailure \<longleftrightarrow>
      stored m ''_ref_version'' PNone = f_ref_version (nd_field self)
      \<and> E \<noteq> PNone \<and> stored m ''_ref'' E \<noteq> E)
   \<and> (fst (bind_data env self (PDict m) E) = Inl NodeIntegrityFailure
       \<or> fst (bind_data env self (PDict m) E) = Inr ())
   \<and> (stored m ''_ref_version'' PNone \<noteq> f_ref_version (nd_field self)
       \<longrightarrow> fst (bind_data env self (PDict m) E) = Inr ())"
  by (simp add: bind_data_PDict Let_def)

theorem bind_data_raises_iff_witness:
  "fst (bind_data lenient (NodeData (sample_field False) PNone PNone)
          (PDict tagged_body) (PStr ''r2''))
     = Inl NodeIntegrityFailure
   \<and> fst (bind_data lenient (NodeData (sample_field False) PNone PNone)
            (PDict tagged_body) (PStr ''r1''))
     = Inr ()
   \<and> fst (bind_data lenient (NodeData (sample_field False) PNone PNone)
            (PDict (tagged_body(''_ref_version'' \<mapsto> PInt 2))) (PStr ''r2''))
     = Inr ()"
  using bind_data_raises_iff [of lenient "NodeData (sample_field False) PNone PNone"
                                 tagged_body "PStr ''r2''"]
        bind_data_raises_iff [of lenient "NodeData (sample_field False) PNone PNone"
                                 tagged_body "PStr ''r1''"]
        bind_data_raises_iff [of lenient "NodeData (sample_field False) PNone PNone"
                                 "tagged_body(''_ref_version'' \<mapsto> PInt 2)" "PStr ''r2''"]
  by (auto simp: stored_def tagged_body_def sample_field_def NodeData_def)

lemma stored_tagged_ref: "stored tagged_body ''_ref'' E = PStr ''r1''"
  by (simp add: stored_def tagged_body_def)

lemma stored_tagged_ref_version: "stored tagged_body ''_ref_version'' E = PInt 1"
  by (simp add: stored_def tagged_body_def)

lemma tagged_body_stripped:
  "tagged_body(''_ref'' := None, ''_ref_version'' := None) = plain_body"
  by (rule ext) (simp add: tagged_body_def plain_body_def)

lemma plain_body_neq_tagged: "plain_body \<noteq> tagged_body"
proof
  assume "plain_body = tagged_body"
  then have "plain_body ''_ref'' = tagged_body ''_ref''" by simp
  then show False by (simp add: plain_body_def tagged_body_def)
qed

lemma tagged_body_nonempty: "tagged_body \<noteq> Map.empty"
  by (simp add: tagged_body_def)

text \<open>
  Claim C7, as stated: a bind that raises \<open>NodeIntegrityFailure\<close> leaves the proxy and
  the caller's mapping as they were. It fails for a new proxy bound to
  \<open>{'_ref': 'r1', '_ref_version': 1, 'a': 5}\<close> with the expected reference \<open>r2\<close> under
  epoch 1: the bind raises, and by then the proxy records \<open>ref = 'r1'\<close> and
  \<open>ref_version = 1\<close> and both reserved keys are gone from the caller's mapping.
\<close>

theorem bind_data_failure_not_atomic:
  "bind_data lenient (NodeData (sample_field False) PNone PNone) (PDict tagged_body) (PStr ''r2'')
     = (Inl NodeIntegrityFailure,
        (NodeData (sample_field False) PNone PNone)\<lparr>nd_ref := PStr ''r1'', nd_ref_version := PInt 1\<rparr>,
        PDict plain_body)
   \<and> (NodeData (sample_field False) PNone PNone)\<lparr>nd_ref := PStr ''r1'', nd_ref_version := PInt 1\<rparr>
       \<noteq> NodeData (sample_field False) PNone PNone
   \<and> PDict plain_body \<noteq> PDict tagged_body"
  by (simp add: bind_data_PDict stored_tagged_ref stored_tagged_ref_version tagged_body_stripped
        plain_body_neq_tagged Let_def sample_field_def NodeData_def)

text \<open>
  Claim C7, amended. When \<open>bind_data\<close> raises \<open>NodeIntegrityFailure\<close>, the body slot, the
  pointer and the field of the proxy are what they were before the call, so that an
  unbound proxy stays unbound. The recorded \<open>ref\<close> and \<open>ref_version\<close> are the values
  taken from the body (the expected reference and \<open>None\<close> where the body has none), and
  the caller's mapping has lost the two reserved keys.
\<close>

theorem bind_data_failure_state:
  assumes "bind_data env self (PDict m) E = (Inl NodeIntegrityFailure, self', body')"
  shows "self' = self\<lparr>nd_ref := stored m ''_ref'' E,
                        nd_ref_version := stored m ''_ref_version'' PNone\<rparr>
         \<and> nd_node_data self' = nd_node_data self
         \<and> nd_id self' = nd_id self
         \<and> nd_field self' = nd_field self
         \<and> body' = PDict (m(''_ref'' := None, ''_ref_version'' := None))"
  using assms by (auto simp: bind_data_PDict Let_def split: if_splits)

theorem bind_data_failure_state_witness:
  "nd_node_data (fst (snd (bind_data lenient (NodeData (sample_field False) PNone PNone)
                             (PDict tagged_body) (PStr ''r2'')))) = PNone
   \<and> nd_ref (fst (snd (bind_data lenient (NodeData (sample_field False) PNone PNone)
                             (PDict tagged_body) (PStr ''r2'')))) = PStr ''r1''
   \<and> snd (snd (bind_data lenient (NodeData (sample_field False) PNone PNone)
                             (PDict tagged_body) (PStr ''r2''))) = PDict plain_body"
proof -
  obtain r s b where eq: "bind_data lenient (NodeData (sample_field False) PNone PNone)
                             (PDict tagged_body) (PStr ''r2'') = (r, s, b)"
    by (cases "bind_data lenient (NodeData (sample_field False) PNone PNone)
                             (PDict tagged_body) (PStr ''r2'')") auto
  have "r = Inl NodeIntegrityFailure"
    using eq by (simp add: bind_data_PDict stored_tagged_ref stored_tagged_ref_version Let_def
                   sample_field_def NodeData_def)
  with eq bind_data_failure_state [of lenient "NodeData (sample_field False) PNone PNone"
                                      tagged_body "PStr ''r2''" s b]
  show ?thesis
    by (simp add: stored_tagged_ref stored_tagged_ref_version tagged_body_stripped NodeData_def)
qed

section \<open>Lazy materialization\<close>

lemma ns_get_tagged:
  "ns_get (PStr ''p1'') tagged_store
     = (PDict tagged_body, tagged_store\<lparr>calls := [Get (PStr ''p1'')]\<rparr>)"
  by (simp add: ns_get_def tagged_store_def)

lemma bind_data_no_ref_never_integrity:
  "fst (bind_data env self body PNone) \<noteq> Inl NodeIntegrityFailure"
  by (cases body)
     (auto simp: bind_data_def Let_def split: option.splits sum.splits prod.splits)

lemma data_never_integrity: "fst (data env self ns) \<noteq> Inl NodeIntegrityFailure"
  using bind_data_no_ref_never_integrity
  apply (simp add: data_def split: prod.splits sum.splits)
  by (metis fst_conv)

lemma data_fetch_dict:
  assumes "nd_node_data self = PNone" "truthy (nd_id self)" "\<not> DEBUG env"
          "contents ns (nd_id self) = Some (PDict m)"
  shows "data env self ns =
        (Inr (wrap (nd_field self) (PDict (m(''_ref'' := None, ''_ref_version'' := None)))),
         self\<lparr>nd_ref := stored m ''_ref'' PNone,
              nd_ref_version := stored m ''_ref_version'' PNone,
              nd_node_data := wrap (nd_field self)
                                (PDict (m(''_ref'' := None, ''_ref_version'' := None)))\<rparr>,
         ns\<lparr>calls := calls ns @ [Get (nd_id self)]\<rparr>)"
proof (cases "m = Map.empty")
  case True
  with assms show ?thesis
    by (simp add: data_def ns_get_def bind_data_PDict Let_def stored_def)
next
  case False
  with assms show ?thesis
    by (simp add: data_def ns_get_def bind_data_PDict Let_def)
qed

text \<open>
  Claim C6, as stated: the first access of a proxy with a pointer binds the fetched
  body with the check of the explicit bind, and raises \<open>NodeIntegrityFailure\<close> for some
  fetched body of the field's epoch. It fails for the stored body
  \<open>{'_ref': 'r1', '_ref_version': 1, 'a': 5}\<close> under epoch 1: the explicit bind against
  \<open>r2\<close> raises, the first access of a proxy pointing at that body returns \<open>{'a': 5}\<close>.
\<close>

theorem lazy_access_skips_check:
  "fst (bind_data lenient (NodeData (sample_field False) (PStr ''p1'') PNone)
          (PDict tagged_body) (PStr ''r2'')) = Inl NodeIntegrityFailure
   \<and> fst (data lenient (NodeData (sample_field False) (PStr ''p1'') PNone) tagged_store)
       = Inr (PDict plain_body)"
  by (simp add: data_def ns_get_tagged tagged_body_nonempty bind_data_PDict stored_tagged_ref
        stored_tagged_ref_version tagged_body_stripped Let_def lenient_def sample_env_def
        sample_field_def NodeData_def wrap_def)

text \<open>
  Claim C6, amended. Reading \<open>data\<close> never raises \<open>NodeIntegrityFailure\<close>: the lazy path
  calls \<open>bind_data\<close> without an expected reference, and the check needs one. In lenient
  mode the first access of a proxy with a pointer and no body, whose pointer the store
  maps to a dict, fetches once, strips the reserved keys, records them as \<open>ref\<close> and
  \<open>ref_version\<close> (\<open>None\<close> where the body has none), and stores and returns the wrapped
  rest, whatever \<open>_ref\<close> and \<open>_ref_version\<close> the fetched body carries.
\<close>

theorem lazy_materialization_unchecked:
  "fst (data env self ns) \<noteq> Inl NodeIntegrityFailure
   \<and> (nd_node_data self = PNone \<and> truthy (nd_id self) \<and> \<not> DEBUG env
        \<and> contents ns (nd_id self) = Some (PDict m) \<longrightarrow>
      data env self ns =
        (Inr (wrap (nd_field self) (PDict (m(''_ref'' := None, ''_ref_version'' := None)))),
         self\<lparr>nd_ref := stored m ''_ref'' PNone,
              nd_ref_version := stored m ''_ref_version'' PNone,
              nd_node_data := wrap (nd_field self)
                                (PDict (m(''_ref'' := None, ''_ref_version'' := None)))\<rparr>,
         ns\<lparr>calls := calls ns @ [Get (nd_id self)]\<rparr>))"
  using data_never_integrity [of env self ns] data_fetch_dict [of self env ns m]
  by blast

theorem lazy_materialization_unchecked_witness:
  "data lenient (NodeData (sample_field False) (PStr ''p1'') PNone) tagged_store =
     (Inr (PDict plain_body),
      (NodeData (sample_field False) (PStr ''p1'') PNone)
        \<lparr>nd_ref := PStr ''r1'', nd_ref_version := PInt 1, nd_node_data := PDict plain_body\<rparr>,
      tagged_store\<lparr>calls := [Get (PStr ''p1'')]\<rparr>)"
  using lazy_materialization_unchecked [of lenient "NodeData (sample_field False) (PStr ''p1'') PNone"
          tagged_store tagged_body]
  by (simp add: stored_tagged_ref stored_tagged_ref_version tagged_body_stripped
        NodeData_def lenient_def sample_env_def tagged_store_def wrap_def sample_field_def)

lemma data_bound:
  "nd_node_data v \<noteq> PNone \<Longrightarrow> data env v ns = (Inr (nd_node_data v), v, ns)"
  by (simp add: data_def)

lemma data_unbound_empty:
  "nd_node_data v = PNone \<Longrightarrow> \<not> truthy (nd_id v) \<Longrightarrow>
   data env v ns = (Inr (wrap (nd_field v) (PDict Map.empty)), v, ns)"
  by (simp add: data_def)

text \<open>
  The pointer branch memoizes: once a read of a proxy with a pointer has returned a
  body, every later read returns that body and calls nothing, whatever the store holds
  by then.
\<close>

lemma data_memoized:
  assumes "truthy (nd_id self)" "data env self ns = (Inr d, self1, ns1)" "d \<noteq> PNone"
  shows "data env' self1 ns' = (Inr d, self1, ns')"
proof -
  have "nd_node_data self1 = d"
    using assms
    by (auto simp: data_def split: if_splits prod.splits sum.splits)
  with assms(3) show ?thesis by (simp add: data_def)
qed

text \<open>A write to a bound proxy is read back.\<close>

lemma bound_write_then_read:
  assumes "nd_node_data v = PDict m"
  shows "\<exists>v1. setitem env v k x ns = (Inr (), v1, ns)
              \<and> getitem env v1 k ns = (Inr x, v1, ns)"
  using assms by (simp add: setitem_def getitem_def data_def)

text \<open>
  Claim C3 says that the first access that finds the body absent stores the
  materialized body on the proxy, so that on a proxy with no pointer and no body a write
  of \<open>v\<close> under a key followed by a read of that key returns \<open>v\<close>. The branch of \<open>data\<close>
  for a proxy without a pointer returns a new empty dict and does not assign it to
  \<open>_node_data\<close>, unlike the pointer branch: on \<open>NodeData(field, None)\<close>, for a field
  without wrapper, the write returns normally and leaves the proxy as it was, and the
  read that follows raises \<open>KeyError\<close>.
\<close>

theorem unbound_empty_write_is_lost:
  "setitem env (NodeData (sample_field n) PNone PNone) k x ns
     = (Inr (), NodeData (sample_field n) PNone PNone, ns)
   \<and> getitem env (NodeData (sample_field n) PNone PNone) k ns
     = (Inl KeyError, NodeData (sample_field n) PNone PNone, ns)"
  by (simp add: setitem_def getitem_def data_def NodeData_def wrap_def sample_field_def)

section \<open>Decoding\<close>

text \<open>
  A non-empty string whose decoding raises gives a proxy with no pointer and the
  (wrapped) empty dict as its body.
\<close>

lemma to_python_decode_failure:
  assumes "s \<noteq> []" "loads env s = None"
  shows "to_python env fld (PStr s) = Inr (NodeData fld PNone (wrap fld (PDict Map.empty)))"
  using assms by (simp add: to_python_def wrap_def split: option.splits)

text \<open>
  Claim C8 says that \<open>to_python\<close> never raises, for every input. The \<open>try\<close> covers the
  decoding only: the membership test \<open>'node_id' in value\<close> that follows is outside it,
  and raises \<open>TypeError\<close> on a value that is not iterable. So \<open>to_python\<close> raises on
  the integer 5, and on every non-empty string that decodes, without an error, to an
  integer.
\<close>

theorem to_python_raises_on_non_mapping:
  "to_python env fld (PInt 5) = Inl TypeError
   \<and> (s \<noteq> [] \<and> loads env s = Some (PInt n) \<longrightarrow> to_python env fld (PStr s) = Inl TypeError)"
  by (simp add: to_python_def)

theorem to_python_raises_on_non_mapping_witness:
  "to_python lenient (sample_field True) (PStr ''I5'') = Inl TypeError"
  using to_python_raises_on_non_mapping [of lenient "sample_field True" "''I5''" 5]
  by (simp add: lenient_def sample_env_def sample_loads_def)

section \<open>Deletion\<close>

text \<open>
  Claim C9. When the owning record is deleted and the proxy has a pointer (an
  identifier that the test \<open>if not value.id\<close> lets through, as every non-empty string
  is), the hook calls \<open>delete(pointer)\<close> exactly once and nothing else, and the store no
  longer holds the document. When the proxy has no pointer, the hook makes no store call
  and leaves the store as it is.
\<close>

theorem on_delete_calls:
  "calls (on_delete v ns) = calls ns @ (if truthy (nd_id v) then [Delete (nd_id v)] else [])
   \<and> (\<not> truthy (nd_id v) \<longrightarrow> on_delete v ns = ns)
   \<and> (nd_id v = PNone \<longrightarrow> on_delete v ns = ns)
   \<and> (truthy (nd_id v) \<longrightarrow> contents (on_delete v ns) (nd_id v) = None)"
  by (simp add: on_delete_def ns_delete_def)

theorem on_delete_calls_witness:
  "calls (on_delete (NodeData (sample_field True) (PStr ''p1'') PNone) tagged_store)
     = [Delete (PStr ''p1'')]
   \<and> on_delete (NodeData (sample_field True) PNone PNone) tagged_store = tagged_store"
  using on_delete_calls [of "NodeData (sample_field True) (PStr ''p1'') PNone" tagged_store]
        on_delete_calls [of "NodeData (sample_field True) PNone PNone" tagged_store]
  by (simp add: NodeData_def tagged_store_def)

section \<open>Pickling\<close>

text \<open>
  Claim C10, as stated: for every proxy whose body is materialized, \<open>__setstate__\<close>
  applied to the result of \<open>__getstate__\<close> gives a proxy with an equal body. It fails
  for a canonical-key body \<open>{'legacy': 5}\<close> when the constructor \<open>CanonicalKeyDict\<close>
  files the key \<open>legacy\<close> under \<open>canonical\<close>: the state carries the plain dict
  \<open>{'legacy': 5}\<close> and the flag, and the restored body is \<open>{'canonical': 5}\<close>.
\<close>

theorem pickle_roundtrip_renames:
  "getstate (NodeData (sample_field True) (PStr ''p1'') (PCanon [''legacy'' \<mapsto> PInt 5]))
     = Inr \<lparr>st_field = sample_field True, st_id = PStr ''p1'', st_ref = PNone,
            st_ref_version = PNone, st_node_data = PDict [''legacy'' \<mapsto> PInt 5],
            st_node_data_CANONICAL = Some True\<rparr>
   \<and> setstate renaming
        \<lparr>st_field = sample_field True, st_id = PStr ''p1'', st_ref = PNone,
         st_ref_version = PNone, st_node_data = PDict [''legacy'' \<mapsto> PInt 5],
         st_node_data_CANONICAL = Some True\<rparr>
     = Inr (NodeData (sample_field True) (PStr ''p1'') (PCanon [''canonical'' \<mapsto> PInt 5]))
   \<and> NodeData (sample_field True) (PStr ''p1'') (PCanon [''canonical'' \<mapsto> PInt 5])
       \<noteq> NodeData (sample_field True) (PStr ''p1'') (PCanon [''legacy'' \<mapsto> PInt 5])"
proof -
  have ne: "[''canonical'' \<mapsto> PInt 5] \<noteq> [''legacy'' \<mapsto> PInt 5]"
  proof
    assume "[''canonical'' \<mapsto> PInt 5] = [''legacy'' \<mapsto> PInt 5]"
    then have "[''canonical'' \<mapsto> PInt 5] ''legacy'' = [''legacy'' \<mapsto> PInt 5] ''legacy''"
      by simp
    then show False by simp
  qed
  have built: "(\<lambda>k. if k = ''canonical''
                    then (case [''legacy'' \<mapsto> PInt 5] ''canonical'' of
                            Some x \<Rightarrow> Some x | None \<Rightarrow> [''legacy'' \<mapsto> PInt 5] ''legacy'')
                    else if k = ''legacy'' then None else [''legacy'' \<mapsto> PInt 5] k)
               = [''canonical'' \<mapsto> PInt 5]"
    by (rule ext) simp
  show ?thesis
    using ne
    by (simp add: getstate_def setstate_def NodeData_def renaming_def sample_env_def
          renaming_canonical_def built)
qed

text \<open>
  Claim C10, amended. For a proxy whose body is a plain dict, \<open>__setstate__\<close> applied to
  the result of \<open>__getstate__\<close> gives the proxy back: same field, id, ref, ref_version
  and body, and the flag is off. For a proxy whose body is a canonical-key mapping, the
  state carries the items as a plain dict with the flag on, and \<open>__setstate__\<close> keeps
  field, id, ref and ref_version and takes as body what the constructor
  \<open>CanonicalKeyDict\<close> makes of that plain dict (its exception, if it raises); the proxy
  comes back equal exactly when the constructor rebuilds the mapping from its own
  items. For a proxy whose body is absent, \<open>__getstate__\<close> fails with \<open>AttributeError\<close>.
\<close>

theorem pickle_roundtrip:
  "(nd_node_data self = PDict m \<longrightarrow>
      (\<exists>st. getstate self = Inr st \<and> st_node_data st = PDict m
            \<and> st_node_data_CANONICAL st = Some False \<and> setstate env st = Inr self))
   \<and> (nd_node_data self = PCanon m \<longrightarrow>
      (\<exists>st. getstate self = Inr st \<and> st_node_data st = PDict m
            \<and> st_node_data_CANONICAL st = Some True
            \<and> setstate env st =
                (case CanonicalKeyDict env (PDict m) of
                   Inl e \<Rightarrow> Inl e
                 | Inr c \<Rightarrow> Inr (self\<lparr>nd_node_data := c\<rparr>))
            \<and> (setstate env st = Inr self
                 \<longleftrightarrow> CanonicalKeyDict env (PDict m) = Inr (PCanon m))))
   \<and> (nd_node_data self = PNone \<longrightarrow> getstate self = Inl AttributeError)"
  by (cases self) (auto simp: getstate_def setstate_def Let_def split: sum.splits)

theorem pickle_roundtrip_witness:
  "(\<exists>st. getstate (NodeData (sample_field True) (PStr ''p1'') (PDict plain_body)) = Inr st
         \<and> setstate lenient st = Inr (NodeData (sample_field True) (PStr ''p1'') (PDict plain_body)))
   \<and> (\<exists>st. getstate (NodeData (sample_field True) (PStr ''p1'') (PCanon plain_body)) = Inr st
         \<and> st_node_data st = PDict plain_body
         \<and> setstate lenient st = Inr (NodeData (sample_field True) (PStr ''p1'') (PCanon plain_body)))
   \<and> getstate (NodeData (sample_field True) (PStr ''p1'') PNone) = Inl AttributeError"
  using pickle_roundtrip [of "NodeData (sample_field True) (PStr ''p1'') (PDict plain_body)"
                             plain_body lenient]
        pickle_roundtrip [of "NodeData (sample_field True) (PStr ''p1'') (PCanon plain_body)"
                             plain_body lenient]
        pickle_roundtrip [of "NodeData (sample_field True) (PStr ''p1'') PNone"
                             plain_body lenient]
  by (simp add: NodeData_def lenient_def sample_env_def sample_canonical_def) blast

section \<open>Saving\<close>

lemma py_items_not_None: "py_items d = Inr m \<Longrightarrow> d \<noteq> PNone"
  by (cases d) auto

lemma py_items_empty: "py_items d = Inr m \<Longrightarrow> py_empty d = Inr (m = Map.empty)"
  by (cases d) auto

lemma py_items_flatten:
  "py_items d = Inr m \<Longrightarrow> (case d of PCanon c \<Rightarrow> PDict c | _ \<Rightarrow> d) = PDict m"
  by (cases d) auto

text \<open>Reading \<open>data\<close> keeps the pointer and the field.\<close>

lemma bind_data_keeps_id:
  "bind_data env self body E = (r, self1, body1) \<Longrightarrow>
   nd_id self1 = nd_id self \<and> nd_field self1 = nd_field self"
  by (cases body)
     (auto simp: bind_data_def Let_def split: option.splits sum.splits prod.splits if_splits)

lemma data_keeps_id:
  assumes "data env v ns = (r, v1, ns1)"
  shows "nd_id v1 = nd_id v \<and> nd_field v1 = nd_field v"
  using assms bind_data_keeps_id
  by (fastforce simp: data_def split: if_splits prod.splits sum.splits)

lemma data_calls:
  assumes "data env v ns = (r, v1, ns1)"
  shows "calls ns1 = calls ns @ (if nd_node_data v = PNone \<and> truthy (nd_id v) \<and> \<not> DEBUG env
                                 then [Get (nd_id v)] else [])
         \<and> contents ns1 = contents ns \<and> counter ns1 = counter ns"
  using assms
  by (auto simp: data_def ns_get_def split: if_splits prod.splits sum.splits)

text \<open>A read that returned a mapping is repeated by the next read, which calls nothing.\<close>

lemma data_idempotent:
  assumes "data env v ns = (Inr d, v1, ns1)" "py_items d = Inr m"
  shows "data env v1 ns1 = (Inr d, v1, ns1)"
proof (cases "nd_node_data v = PNone \<and> truthy (nd_id v)")
  case True
  then have "nd_node_data v1 = d"
    using assms(1) by (auto simp: data_def split: if_splits prod.splits sum.splits)
  with assms(2) show ?thesis by (simp add: data_def py_items_not_None)
next
  case False
  then have "v1 = v" "ns1 = ns"
    using assms(1) by (auto simp: data_def split: if_splits)
  with assms(1) show ?thesis by simp
qed

lemma nonzero_materialized:
  assumes "data env v ns = (Inr d, v1, ns1)" "py_items d = Inr m"
  shows "nonzero env v ns = (Inr (m \<noteq> Map.empty), v1, ns1)"
  using assms by (simp add: nonzero_def py_items_empty)

lemma get_prep_value_materialized:
  assumes "data env v ns = (Inr d, v1, ns1)" "py_items d = Inr m"
  shows "get_prep_value env fld v ns =
     (if f_null fld \<and> m = Map.empty then (Inr None, v1, ns1)
      else if \<not> truthy (nd_id v) then
        (Inr (Some (dumps env (PDict [''node_id'' \<mapsto> PStr (generate_id env (counter ns))]))),
         v1\<lparr>nd_id := PStr (generate_id env (counter ns))\<rparr>,
         ns1\<lparr>contents := (contents ns)(PStr (generate_id env (counter ns)) \<mapsto> PDict m),
             counter := Suc (counter ns),
             calls := calls ns1 @ [Create (PDict m)]\<rparr>)
      else
        (Inr (Some (dumps env (PDict [''node_id'' \<mapsto> nd_id v]))), v1,
         ns1\<lparr>contents := (contents ns)(nd_id v \<mapsto> PDict m),
             calls := calls ns1 @ [Set (nd_id v) (PDict m)]\<rparr>))"
proof -
  note nz = nonzero_materialized [OF assms]
  note again = data_idempotent [OF assms]
  note keep = data_keeps_id [OF assms(1)]
  note cs = data_calls [OF assms(1)]
  show ?thesis
    by (simp add: get_prep_value_def nz again keep cs py_items_flatten [OF assms(2)]
          ns_create_def ns_set_def Let_def)
qed

text \<open>
  Claim C4, as stated: the null is persisted exactly when \<open>null\<close> is enabled and the
  proxy has no pointer and no body content, and a proxy with a pointer and an empty body
  is written to the store. It fails for a proxy with the pointer \<open>p1\<close> and the bound body
  \<open>{}\<close> under \<open>null=True\<close>: the null is persisted, and the store is not called.
\<close>
theorem null_persisted_despite_pointer:
  "truthy (nd_id (NodeData (sample_field True) (PStr ''p1'') (PDict Map.empty)))
   \<and> get_prep_value lenient (sample_field True)
        (NodeData (sample_field True) (PStr ''p1'') (PDict Map.empty)) tagged_store
     = (Inr None, NodeData (sample_field True) (PStr ''p1'') (PDict Map.empty), tagged_store)"
  by (simp add: get_prep_value_def nonzero_def data_def NodeData_def sample_field_def)

lemma get_prep_value_null_iff:
  "fst (get_prep_value env fld v ns) = Inr None
     \<longleftrightarrow> f_null fld \<and> fst (nonzero env v ns) = Inr False"
  by (auto simp: get_prep_value_def ns_create_def Let_def split: prod.splits sum.splits)

text \<open>
  Claim C4, amended. \<open>get_prep_value\<close> persists the null exactly when \<open>null\<close> is enabled
  and the truth value of the proxy is false, that is, when its materialized body is
  empty, whether or not the proxy has a pointer. Whenever reading the proxy yields a
  mapping with items \<open>m\<close>: if \<open>null\<close> is enabled and \<open>m\<close> is empty the null is persisted
  and the store is not written; in every other case the plain dict of \<open>m\<close> is written,
  by one \<open>create\<close> whose pointer is recorded when the proxy has no pointer and by one
  \<open>set\<close> under the proxy's pointer otherwise, and the encoded pointer record is persisted.
\<close>

theorem null_persisted_iff:
  "(fst (get_prep_value env fld v ns) = Inr None
      \<longleftrightarrow> f_null fld \<and> fst (nonzero env v ns) = Inr False)
   \<and> (data env v ns = (Inr d, v1, ns1) \<and> py_items d = Inr m \<longrightarrow>
        fst (nonzero env v ns) = Inr (m \<noteq> Map.empty)
        \<and> get_prep_value env fld v ns =
           (if f_null fld \<and> m = Map.empty then (Inr None, v1, ns1)
            else if \<not> truthy (nd_id v) then
              (Inr (Some (dumps env (PDict [''node_id'' \<mapsto> PStr (generate_id env (counter ns))]))),
               v1\<lparr>nd_id := PStr (generate_id env (counter ns))\<rparr>,
               ns1\<lparr>contents := (contents ns)(PStr (generate_id env (counter ns)) \<mapsto> PDict m),
                   counter := Suc (counter ns),
                   calls := calls ns1 @ [Create (PDict m)]\<rparr>)
            else
              (Inr (Some (dumps env (PDict [''node_id'' \<mapsto> nd_id v]))), v1,
               ns1\<lparr>contents := (contents ns)(nd_id v \<mapsto> PDict m),
                   calls := calls ns1 @ [Set (nd_id v) (PDict m)]\<rparr>)))"
  using get_prep_value_null_iff [of env fld v ns]
        get_prep_value_materialized [of env v ns d v1 ns1 m fld]
        nonzero_materialized [of env v ns d v1 ns1 m]
  by simp

lemma plain_body_nonempty: "plain_body \<noteq> Map.empty"
  by (simp add: plain_body_def)

theorem null_persisted_iff_witness:
  "fst (get_prep_value lenient (sample_field True)
          (NodeData (sample_field True) (PStr ''p1'') (PDict Map.empty)) tagged_store) = Inr None
   \<and> get_prep_value lenient (sample_field True)
          (NodeData (sample_field True) (PStr ''p1'') (PDict plain_body)) tagged_store
       = (Inr (Some ''Np1''), NodeData (sample_field True) (PStr ''p1'') (PDict plain_body),
          tagged_store\<lparr>contents := [PStr ''p1'' \<mapsto> PDict plain_body],
                       calls := [Set (PStr ''p1'') (PDict plain_body)]\<rparr>)"
proof -
  let ?e = "NodeData (sample_field True) (PStr ''p1'') (PDict Map.empty)"
  let ?b = "NodeData (sample_field True) (PStr ''p1'') (PDict plain_body)"
  have e: "data lenient ?e tagged_store = (Inr (PDict Map.empty), ?e, tagged_store)"
    by (simp add: data_def NodeData_def)
  have b: "data lenient ?b tagged_store = (Inr (PDict plain_body), ?b, tagged_store)"
    by (simp add: data_def NodeData_def)
  from e null_persisted_iff [of lenient "sample_field True" ?e tagged_store
                                "PDict Map.empty" ?e tagged_store Map.empty]
  have 1: "fst (get_prep_value lenient (sample_field True) ?e tagged_store) = Inr None"
    by (simp add: sample_field_def)
  from b null_persisted_iff [of lenient "sample_field True" ?b tagged_store
                                "PDict plain_body" ?b tagged_store plain_body]
  have 2: "get_prep_value lenient (sample_field True) ?b tagged_store
       = (Inr (Some ''Np1''), ?b,
          tagged_store\<lparr>contents := [PStr ''p1'' \<mapsto> PDict plain_body],
                       calls := [Set (PStr ''p1'') (PDict plain_body)]\<rparr>)"
    by (simp add: plain_body_nonempty NodeData_def lenient_def sample_env_def sample_dumps_def
          tagged_store_def)
  from 1 2 show ?thesis by simp
qed

text \<open>
  Once a body is set on the proxy, saving behaves in every mode as create-then-set:
  with non-empty store identifiers, the first save of a proxy with no pointer that does
  not persist the null calls \<open>create\<close> exactly once, with the plain dict of the body,
  makes no other store call, keeps the body and records the returned pointer, which is
  not \<open>None\<close>; every later save of a proxy carrying that pointer and a body, whatever the
  body and the store have become, keeps the pointer and calls \<open>set(pointer, body)\<close>
  exactly once and nothing else.
\<close>

lemma create_then_set_bound:
  assumes gen: "\<forall>n. generate_id env n \<noteq> []"
    and nop: "\<not> truthy (nd_id v)"
    and b1: "py_items (nd_node_data v) = Inr m"
    and nn1: "\<not> (f_null fld \<and> m = Map.empty)"
    and s1: "get_prep_value env fld v ns = (r1, v1, ns1)"
    and same: "nd_id v2 = nd_id v1"
    and b2: "py_items (nd_node_data v2) = Inr m2"
    and nn2: "\<not> (f_null fld \<and> m2 = Map.empty)"
    and s2: "get_prep_value env fld v2 ns2 = (r2, v3, ns3)"
  shows "r1 = Inr (Some (dumps env (PDict [''node_id'' \<mapsto> nd_id v1])))
       \<and> calls ns1 = calls ns @ [Create (PDict m)]
       \<and> nd_id v1 = PStr (generate_id env (counter ns))
       \<and> nd_id v1 \<noteq> PNone \<and> truthy (nd_id v1)
       \<and> nd_node_data v1 = nd_node_data v
       \<and> contents ns1 (nd_id v1) = Some (PDict m)
       \<and> r2 = Inr (Some (dumps env (PDict [''node_id'' \<mapsto> nd_id v1])))
       \<and> nd_id v3 = nd_id v1
       \<and> calls ns3 = calls ns2 @ [Set (nd_id v1) (PDict m2)]
       \<and> contents ns3 (nd_id v1) = Some (PDict m2)"
proof -
  have d1: "data env v ns = (Inr (nd_node_data v), v, ns)"
    using data_bound [of v env ns] py_items_not_None [OF b1] by simp
  have d2: "data env v2 ns2 = (Inr (nd_node_data v2), v2, ns2)"
    using data_bound [of v2 env ns2] py_items_not_None [OF b2] by simp
  have first: "r1 = Inr (Some (dumps env (PDict [''node_id'' \<mapsto> nd_id v1])))
       \<and> calls ns1 = calls ns @ [Create (PDict m)]
       \<and> nd_id v1 = PStr (generate_id env (counter ns))
       \<and> nd_node_data v1 = nd_node_data v
       \<and> contents ns1 (nd_id v1) = Some (PDict m)"
    using s1 nop nn1 by (auto simp: get_prep_value_materialized [OF d1 b1])
  then have t: "truthy (nd_id v1)" "nd_id v1 \<noteq> PNone"
    using gen by simp_all
  have t2: "truthy (nd_id v2)"
    using t same by simp
  have second: "r2 = Inr (Some (dumps env (PDict [''node_id'' \<mapsto> nd_id v2])))
       \<and> nd_id v3 = nd_id v2
       \<and> calls ns3 = calls ns2 @ [Set (nd_id v2) (PDict m2)]
       \<and> contents ns3 (nd_id v2) = Some (PDict m2)"
    using s2 t2 nn2 by (auto simp: get_prep_value_materialized [OF d2 b2])
  from first t second same show ?thesis by auto
qed

lemma create_then_set_bound_instance:
  "calls (snd (snd (get_prep_value lenient (sample_field False)
                      (NodeData (sample_field False) PNone (PDict plain_body)) empty_store)))
     = [Create (PDict plain_body)]
   \<and> nd_id (fst (snd (get_prep_value lenient (sample_field False)
                        (NodeData (sample_field False) PNone (PDict plain_body)) empty_store)))
     = PStr ''n''
   \<and> fst (get_prep_value lenient (sample_field False)
             (NodeData (sample_field False) (PStr ''n'') (PDict plain_body))
             \<lparr>contents = [PStr ''n'' \<mapsto> PDict plain_body], counter = Suc 0,
              calls = [Create (PDict plain_body)]\<rparr>)
     = Inr (Some ''Nn'')
   \<and> contents (snd (snd (get_prep_value lenient (sample_field False)
                           (NodeData (sample_field False) (PStr ''n'') (PDict plain_body))
                           \<lparr>contents = [PStr ''n'' \<mapsto> PDict plain_body], counter = Suc 0,
                            calls = [Create (PDict plain_body)]\<rparr>))) (PStr ''n'')
     = Some (PDict plain_body)"
proof -
  let ?F = "sample_field False"
  let ?V = "NodeData ?F PNone (PDict plain_body)"
  let ?V1 = "NodeData ?F (PStr ''n'') (PDict plain_body)"
  let ?N1 = "\<lparr>contents = [PStr ''n'' \<mapsto> PDict plain_body], counter = Suc 0,
              calls = [Create (PDict plain_body)]\<rparr>"
  obtain r1 v1 ns1 where s1: "get_prep_value lenient ?F ?V empty_store = (r1, v1, ns1)"
    by (metis prod_cases3)
  obtain r2 v3 ns3 where s2: "get_prep_value lenient ?F ?V1 ?N1 = (r2, v3, ns3)"
    by (metis prod_cases3)
  have gen: "\<forall>n. generate_id lenient n \<noteq> []"
    by (simp add: lenient_def sample_env_def)
  have nop: "\<not> truthy (nd_id ?V)"
    by (simp add: NodeData_def)
  have d1: "data lenient ?V empty_store = (Inr (PDict plain_body), ?V, empty_store)"
    by (simp add: data_def NodeData_def)
  have d2: "data lenient ?V1 ?N1 = (Inr (PDict plain_body), ?V1, ?N1)"
    by (simp add: data_def NodeData_def)
  have it: "py_items (PDict plain_body) = Inr plain_body"
    by simp
  have b1: "py_items (nd_node_data ?V) = Inr plain_body"
    by (simp add: NodeData_def)
  have b2: "py_items (nd_node_data ?V1) = Inr plain_body"
    by (simp add: NodeData_def)
  have nn: "\<not> (f_null ?F \<and> plain_body = Map.empty)"
    by (simp add: plain_body_nonempty)
  have "nd_id (fst (snd (get_prep_value lenient ?F ?V empty_store))) = PStr ''n''"
    unfolding get_prep_value_materialized [OF d1 it, of ?F]
    by (simp add: plain_body_nonempty NodeData_def lenient_def sample_env_def empty_store_def
          sample_field_def)
  with s1 have id1: "nd_id v1 = PStr ''n''"
    by simp
  then have same: "nd_id ?V1 = nd_id v1"
    by (simp add: NodeData_def)
  from create_then_set_bound [OF gen nop b1 nn s1 same b2 nn s2] id1 s1 s2
  show ?thesis
    by (simp add: empty_store_def lenient_def sample_env_def sample_dumps_def)
qed

text \<open>
  Claim C5 says that after the first save of a proxy with no pointer, every later save
  of that proxy calls \<open>set(pointer, body)\<close>. On \<open>NodeData(field, None)\<close> under
  \<open>null=False\<close> the first save reads the no-pointer branch of \<open>data\<close>, which does not
  store the empty document it returns: the save creates the document \<open>{}\<close> and records
  the pointer \<open>n\<close>, and the body is still absent. In strict mode the second save of that
  proxy then raises \<open>NodeUnpopulated\<close> and calls nothing.
\<close>

theorem second_save_strict_raises:
  "get_prep_value strict (sample_field False) (NodeData (sample_field False) PNone PNone) empty_store
     = (Inr (Some ''Nn''), NodeData (sample_field False) (PStr ''n'') PNone,
        \<lparr>contents = [PStr ''n'' \<mapsto> PDict Map.empty], counter = Suc 0,
         calls = [Create (PDict Map.empty)]\<rparr>)
   \<and> get_prep_value strict (sample_field False) (NodeData (sample_field False) (PStr ''n'') PNone)
        \<lparr>contents = [PStr ''n'' \<mapsto> PDict Map.empty], counter = Suc 0,
         calls = [Create (PDict Map.empty)]\<rparr>
     = (Inl NodeUnpopulated, NodeData (sample_field False) (PStr ''n'') PNone,
        \<lparr>contents = [PStr ''n'' \<mapsto> PDict Map.empty], counter = Suc 0,
         calls = [Create (PDict Map.empty)]\<rparr>)"
  by (simp add: get_prep_value_def nonzero_def data_def NodeData_def sample_field_def wrap_def
        ns_create_def strict_def sample_env_def sample_dumps_def empty_store_def Let_def)

section \<open>Round trip\<close>

text \<open>
  Claim C1, as stated: for any body \<open>D\<close> without reserved keys, bind, encode and decode
  give a proxy whose materialized body equals \<open>D\<close>. It fails in strict mode for
  \<open>D = {'a': 5}\<close>: the decoded proxy has a pointer and no body, and materializing it
  raises \<open>NodeUnpopulated\<close>.
\<close>

theorem roundtrip_strict_raises:
  "roundtrip strict (sample_field False) (NodeData (sample_field False) PNone PNone)
     plain_body empty_store = Inl NodeUnpopulated"
  by (simp add: roundtrip_def save_and_load_def bind_data_PDict stored_def plain_body_def Let_def
        get_prep_value_def nonzero_def data_def NodeData_def sample_field_def wrap_def
        ns_create_def strict_def sample_env_def sample_dumps_def sample_loads_def
        empty_store_def to_python_def)

text \<open>
  Claim C1, amended. Let \<open>D\<close> be a body without the reserved keys, bound to a proxy of
  the field, encoded with \<open>get_prep_value\<close> and decoded with \<open>to_python\<close>. In every mode
  the decoded proxy either carries a body with exactly the items of \<open>D\<close>, or it carries
  no body and the pointer under which the store now holds \<open>D\<close>; binding \<open>D\<close> to it gives
  a body with exactly the items of \<open>D\<close>. In lenient mode (\<open>settings.DEBUG\<close> off)
  reading the decoded proxy returns a body with exactly the items of \<open>D\<close>. The
  collaborators are as the spec takes them: the store hands out non-empty identifiers,
  the codec gives non-empty bytes for the pointer record and reverses them, and the
  wrapper, if any, keeps the items of the dict it wraps.
\<close>

theorem roundtrip_lenient:
  assumes gen: "\<forall>n. generate_id env n \<noteq> []"
    and fld: "nd_field p = fld"
    and w: "\<forall>d. py_items (wrap fld (PDict d)) = Inr d"
    and ptr: "ptr = (if truthy (nd_id p) then nd_id p else PStr (generate_id env (counter ns)))"
    and codec: "dumps env (PDict [''node_id'' \<mapsto> ptr]) \<noteq> []"
               "loads env (dumps env (PDict [''node_id'' \<mapsto> ptr]))
                  = Some (PDict [''node_id'' \<mapsto> ptr])"
    and res: "D ''_ref'' = None" "D ''_ref_version'' = None"
  shows "\<exists>q ns1. save_and_load env fld p D ns = Inr (q, ns1)
           \<and> (py_items (nd_node_data q) = Inr D
              \<or> nd_node_data q = PNone \<and> nd_id q = ptr \<and> contents ns1 ptr = Some (PDict D))
           \<and> (\<exists>r q1 b. bind_data env q (PDict D) PNone = (r, q1, b)
                       \<and> r = Inr () \<and> py_items (nd_node_data q1) = Inr D)
           \<and> (\<not> DEBUG env \<longrightarrow>
                (\<exists>body. roundtrip env fld p D ns = Inr body \<and> py_items body = Inr D))"
proof -
  define p1 where
    "p1 = p\<lparr>nd_ref := PNone, nd_ref_version := PNone, nd_node_data := wrap fld (PDict D)\<rparr>"
  have strip: "D(''_ref'' := None, ''_ref_version'' := None) = D"
    using res by (simp add: fun_upd_idem)
  have b: "bind_data env p (PDict D) PNone = (Inr (), p1, PDict D)"
    using res by (simp add: bind_data_PDict stored_def strip p1_def fld Let_def)
  have wD: "py_items (wrap fld (PDict D)) = Inr D"
    using w by simp
  have rebind: "\<exists>r q1 b. bind_data env q (PDict D) PNone = (r, q1, b)
                       \<and> r = Inr () \<and> py_items (nd_node_data q1) = Inr D"
    if "nd_field q = fld" for q
    using res that wD by (simp add: bind_data_PDict stored_def strip Let_def)
  have d: "data env p1 ns = (Inr (wrap fld (PDict D)), p1, ns)"
    using data_bound [of p1 env ns] py_items_not_None [OF wD] by (simp add: p1_def)
  note g = get_prep_value_materialized [OF d wD, of fld]
  have tptr: "truthy ptr"
    using ptr gen by simp
  show ?thesis
  proof (cases "f_null fld \<and> D = Map.empty")
    case True
    let ?q = "NodeData fld PNone (wrap fld (PDict Map.empty))"
    have tp: "to_python env fld PNone = Inr ?q"
      by (simp add: to_python_def wrap_def split: option.splits)
    have we: "py_items (wrap fld (PDict Map.empty)) = Inr Map.empty"
      using w by blast
    have sl: "save_and_load env fld p D ns = Inr (?q, ns)"
      using True b g tp by (simp add: save_and_load_def)
    have dq: "data env ?q ns = (Inr (wrap fld (PDict Map.empty)), ?q, ns)"
      using data_bound [of ?q env ns] py_items_not_None [OF we] by (simp add: NodeData_def)
    have "py_items (nd_node_data ?q) = Inr D"
      using True we by (simp add: NodeData_def)
    moreover have "\<exists>body. roundtrip env fld p D ns = Inr body \<and> py_items body = Inr D"
      using True sl dq we by (simp add: roundtrip_def)
    moreover have "nd_field ?q = fld"
      by (simp add: NodeData_def)
    ultimately show ?thesis
      using sl rebind [of ?q] by blast
  next
    case False
    define ns1 where "ns1 = snd (snd (get_prep_value env fld p1 ns))"
    let ?q = "NodeData fld ptr PNone"
    have gp: "get_prep_value env fld p1 ns
                = (Inr (Some (dumps env (PDict [''node_id'' \<mapsto> ptr]))), p1\<lparr>nd_id := ptr\<rparr>, ns1)"
      using False g ptr by (auto simp: ns1_def p1_def)
    have c: "contents ns1 ptr = Some (PDict D)"
      using False g ptr by (auto simp: ns1_def p1_def)
    have tp: "to_python env fld (PStr (dumps env (PDict [''node_id'' \<mapsto> ptr]))) = Inr ?q"
      using codec by (simp add: to_python_def)
    have sl: "save_and_load env fld p D ns = Inr (?q, ns1)"
      using b gp tp by (simp add: save_and_load_def)
    have lazy: "fst (data env ?q ns1) = Inr (wrap fld (PDict D))" if "\<not> DEBUG env"
      using data_fetch_dict [of ?q env ns1 D] tptr that c strip
      by (simp add: NodeData_def)
    have "nd_node_data ?q = PNone \<and> nd_id ?q = ptr \<and> contents ns1 ptr = Some (PDict D)"
      using c by (simp add: NodeData_def)
    moreover have "\<not> DEBUG env \<longrightarrow>
                (\<exists>body. roundtrip env fld p D ns = Inr body \<and> py_items body = Inr D)"
      using sl lazy wD by (simp add: roundtrip_def)
    moreover have "nd_field ?q = fld"
      by (simp add: NodeData_def)
    ultimately show ?thesis
      using sl rebind [of ?q] by blast
  qed
qed

theorem roundtrip_lenient_witness:
  "\<exists>body. roundtrip lenient (sample_field False) (NodeData (sample_field False) PNone PNone)
            plain_body empty_store = Inr body
          \<and> py_items body = Inr plain_body"
proof -
  have len: "\<not> DEBUG lenient"
    by (simp add: lenient_def sample_env_def)
  have gen: "\<forall>n. generate_id lenient n \<noteq> []"
    by (simp add: lenient_def sample_env_def)
  have fld: "nd_field (NodeData (sample_field False) PNone PNone) = sample_field False"
    by (simp add: NodeData_def)
  have w: "\<forall>d. py_items (wrap (sample_field False) (PDict d)) = Inr d"
    by (simp add: wrap_def sample_field_def)
  have ptr: "PStr ''n'' = (if truthy (nd_id (NodeData (sample_field False) PNone PNone))
                           then nd_id (NodeData (sample_field False) PNone PNone)
                           else PStr (generate_id lenient (counter empty_store)))"
    by (simp add: NodeData_def lenient_def sample_env_def empty_store_def)
  have c1: "dumps lenient (PDict [''node_id'' \<mapsto> PStr ''n'']) \<noteq> []"
    by (simp add: lenient_def sample_env_def sample_dumps_def)
  have c2: "loads lenient (dumps lenient (PDict [''node_id'' \<mapsto> PStr ''n'']))
              = Some (PDict [''node_id'' \<mapsto> PStr ''n''])"
    by (simp add: lenient_def sample_env_def sample_dumps_def sample_loads_def)
  have r1: "plain_body ''_ref'' = None" and r2: "plain_body ''_ref_version'' = None"
    by (simp_all add: plain_body_def)
  from roundtrip_lenient [OF gen fld w ptr c1 c2 r1 r2] len
  show ?thesis
    by blast
qed

end
